theory Spec2Isabelle
  imports Complex_Main "HOL-Library.Product_Lexorder"
begin

section \<open>Text: Python strings and the re module\<close>

text \<open>
  A Python \<open>str\<close> is modelled as a \<open>string\<close>, one character per code point, for the
  code points below 256. On that range \<open>str.lower\<close>, \<open>str.isupper\<close>, \<open>str.islower\<close>,
  \<open>str.isdigit\<close>, \<open>str.isspace\<close> and the classes \<open>\\d\<close>, \<open>\\s\<close>, \<open>\\w\<close> of \<open>re\<close> are the
  fixed tables below. Python floats are modelled as exact reals.
\<close>

text \<open>The ranges \<open>A-Z\<close>, \<open>a-z\<close> and the class \<open>\\d\<close> of the patterns.\<close>

definition upper_letters :: string where
  "upper_letters = ''ABCDEFGHIJKLMNOPQRSTUVWXYZ''"

definition lower_letters :: string where
  "lower_letters = ''abcdefghijklmnopqrstuvwxyz''"

definition is_upper_c :: "char \<Rightarrow> bool" where
  "is_upper_c c = List.member upper_letters c"

definition is_lower_c :: "char \<Rightarrow> bool" where
  "is_lower_c c = List.member lower_letters c"

definition is_digit_c :: "char \<Rightarrow> bool" where
  "is_digit_c c = List.member ''0123456789'' c"

text \<open>
  The letters above the ASCII range: the upper-case letters C0 to DE without the
  multiplication sign, the lower-case letters at the same places 32 further up, and the
  lower-case characters that have no upper-case form below 256 (the ordinal indicators,
  the micro sign, the sharp s and the y with diaeresis).
\<close>

definition upper_latin :: string where
  "upper_latin = [CHR 0xC0, CHR 0xC1, CHR 0xC2, CHR 0xC3, CHR 0xC4, CHR 0xC5,
                    CHR 0xC6, CHR 0xC7, CHR 0xC8, CHR 0xC9, CHR 0xCA, CHR 0xCB,
                    CHR 0xCC, CHR 0xCD, CHR 0xCE, CHR 0xCF, CHR 0xD0, CHR 0xD1,
                    CHR 0xD2, CHR 0xD3, CHR 0xD4, CHR 0xD5, CHR 0xD6, CHR 0xD8,
                    CHR 0xD9, CHR 0xDA, CHR 0xDB, CHR 0xDC, CHR 0xDD, CHR 0xDE]"

definition lower_latin :: string where
  "lower_latin = [CHR 0xE0, CHR 0xE1, CHR 0xE2, CHR 0xE3, CHR 0xE4, CHR 0xE5,
                    CHR 0xE6, CHR 0xE7, CHR 0xE8, CHR 0xE9, CHR 0xEA, CHR 0xEB,
                    CHR 0xEC, CHR 0xED, CHR 0xEE, CHR 0xEF, CHR 0xF0, CHR 0xF1,
                    CHR 0xF2, CHR 0xF3, CHR 0xF4, CHR 0xF5, CHR 0xF6, CHR 0xF8,
                    CHR 0xF9, CHR 0xFA, CHR 0xFB, CHR 0xFC, CHR 0xFD, CHR 0xFE]"

definition lower_only :: string where
  "lower_only = [CHR 0xAA, CHR 0xB5, CHR 0xBA, CHR 0xDF, CHR 0xFF]"

text \<open>\<open>str.isupper\<close>, \<open>str.islower\<close> and \<open>str.isdigit\<close> on one character; the superscripts
  1, 2 and 3 are digits for \<open>str.isdigit\<close> and not for \<open>\\d\<close>.\<close>

definition isupper_c :: "char \<Rightarrow> bool" where
  "isupper_c c = (is_upper_c c \<or> List.member upper_latin c)"

definition islower_c :: "char \<Rightarrow> bool" where
  "islower_c c = (is_lower_c c \<or> List.member lower_latin c \<or> List.member lower_only c)"

definition isdigit_c :: "char \<Rightarrow> bool" where
  "isdigit_c c = (is_digit_c c \<or> List.member [CHR 0xB2, CHR 0xB3, CHR 0xB9] c)"

text \<open>\<open>str.isspace\<close> on one character, which is also the class \<open>\\s\<close>: tab, LF, VT, FF,
  CR, the separators 28 to 31, space, NEL and the no-break space.\<close>

definition is_space_c :: "char \<Rightarrow> bool" where
  "is_space_c c = List.member [CHR 0x09, CHR 0x0A, CHR 0x0B, CHR 0x0C,
                                CHR 0x0D, CHR 0x1C, CHR 0x1D, CHR 0x1E,
                                CHR 0x1F, CHR 0x20, CHR 0x85, CHR 0xA0] c"

text \<open>The class \<open>\\w\<close>: letters, digits (with the superscripts and the fractions
  BC to BE) and the underscore.\<close>

definition is_word_c :: "char \<Rightarrow> bool" where
  "is_word_c c = (isupper_c c \<or> islower_c c \<or> isdigit_c c \<or> c = CHR ''_'' \<or>
                  List.member [CHR 0xBC, CHR 0xBD, CHR 0xBE] c)"

text \<open>
  \<open>str.lower\<close> on one character: the letter at the same place in the lower-case table.
  \<open>upper_c\<close> is the inverse; the matcher uses both under \<open>re.IGNORECASE\<close>. (The
  upper-case forms of the characters in \<open>lower_only\<close> lie above 255 or are two letters;
  \<open>upper_c\<close> leaves them as they are, and no pattern of the program tells them apart.)
\<close>

definition lower_c :: "char \<Rightarrow> char" where
  "lower_c c = (case map_of (zip (upper_letters @ upper_latin) (lower_letters @ lower_latin)) c of
                  Some l \<Rightarrow> l | None \<Rightarrow> c)"

definition upper_c :: "char \<Rightarrow> char" where
  "upper_c c = (case map_of (zip (lower_letters @ lower_latin) (upper_letters @ upper_latin)) c of
                  Some u \<Rightarrow> u | None \<Rightarrow> c)"

definition lower :: "string \<Rightarrow> string" where
  "lower s = map lower_c s"

text \<open>\<open>s.strip()\<close> removes the whitespace at both ends.\<close>

definition strip :: "string \<Rightarrow> string" where
  "strip s = rev (dropWhile is_space_c (rev (dropWhile is_space_c s)))"

text \<open>\<open>s.isupper()\<close>: no lower-case character and at least one upper-case one.\<close>

definition isupper :: "string \<Rightarrow> bool" where
  "isupper s = (list_ex isupper_c s \<and> \<not> list_ex islower_c s)"

text \<open>\<open>s.isdigit()\<close>: not empty, digits only.\<close>

definition isdigit :: "string \<Rightarrow> bool" where
  "isdigit s = (s \<noteq> [] \<and> list_all isdigit_c s)"

text \<open>
  \<open>s.istitle()\<close>, as CPython scans it: \<open>prev\<close> says whether the previous character was
  cased, \<open>cased\<close> whether any character was. An upper-case character must not follow a
  cased one, a lower-case character must.
\<close>

fun istitle_scan :: "bool \<Rightarrow> bool \<Rightarrow> string \<Rightarrow> bool" where
  "istitle_scan prev cased [] = cased"
| "istitle_scan prev cased (c # cs) =
     (if isupper_c c then (if prev then False else istitle_scan True True cs)
      else if islower_c c then (if prev then istitle_scan True True cs else False)
      else istitle_scan False cased cs)"

definition istitle :: "string \<Rightarrow> bool" where
  "istitle s = istitle_scan False False s"

text \<open>\<open>len(s.split())\<close>: the number of maximal runs of characters that are not whitespace.\<close>

fun word_count_scan :: "bool \<Rightarrow> string \<Rightarrow> nat" where
  "word_count_scan inword [] = 0"
| "word_count_scan inword (c # cs) =
     (if is_space_c c then word_count_scan False cs
      else if inword then word_count_scan True cs
      else Suc (word_count_scan True cs))"

definition word_count :: "string \<Rightarrow> nat" where
  "word_count s = word_count_scan False s"

text \<open>\<open>x in s\<close> for strings: \<open>x\<close> occurs in \<open>s\<close> as a contiguous piece.\<close>

fun starts_with :: "string \<Rightarrow> string \<Rightarrow> bool" where
  "starts_with s [] = True"
| "starts_with [] (x # xs) = False"
| "starts_with (c # cs) (x # xs) = (c = x \<and> starts_with cs xs)"

fun contains :: "string \<Rightarrow> string \<Rightarrow> bool" where
  "contains [] x = (x = [])"
| "contains (c # cs) x = (starts_with (c # cs) x \<or> contains cs x)"

subsection \<open>Regular expressions\<close>

text \<open>
  The patterns of the program use character classes, concatenation, alternation, greedy
  repetition and the anchors \<open>^\<close> and \<open>$\<close>. \<open>r+\<close> is \<open>r\<close> followed by \<open>r*\<close>, \<open>r?\<close> is the
  alternative of \<open>r\<close> and the empty pattern (greedy: \<open>r\<close> first), \<open>r{n,}\<close> is \<open>n\<close> copies and a
  star.
\<close>

datatype rx =
    Cls "char \<Rightarrow> bool"
  | Eps
  | Seq rx rx
  | Alt rx rx
  | Star rx
  | Bol
  | Eol

fun rx_size :: "rx \<Rightarrow> nat" where
  "rx_size (Cls p) = 1"
| "rx_size Eps = 1"
| "rx_size (Seq a b) = Suc (rx_size a + rx_size b)"
| "rx_size (Alt a b) = Suc (rx_size a + rx_size b)"
| "rx_size (Star a) = Suc (rx_size a)"
| "rx_size Bol = 1"
| "rx_size Eol = 1"

text \<open>
  \<open>ends ic r (b, s)\<close> is the backtracking matcher of \<open>re\<close>: it tries \<open>r\<close> at a position
  where \<open>s\<close> is the text still ahead and \<open>b\<close> says that the position is the start of the
  whole text, and lists, in the order in which \<open>re\<close> tries them, the positions where a
  match of \<open>r\<close> can end. \<open>ic\<close> is the flag \<open>re.IGNORECASE\<close>. \<open>$\<close> matches at the end
  of the text and before a line feed that ends it. A repetition gives up an iteration
  that consumed nothing.
\<close>

function ends :: "bool \<Rightarrow> rx \<Rightarrow> bool \<times> string \<Rightarrow> (bool \<times> string) list" where
  "ends ic (Cls p) (b, s) =
     (case s of [] \<Rightarrow> []
      | c # cs \<Rightarrow> if p c \<or> (ic \<and> (p (lower_c c) \<or> p (upper_c c))) then [(False, cs)] else [])"
| "ends ic Eps (b, s) = [(b, s)]"
| "ends ic (Seq r1 r2) (b, s) = concat (map (ends ic r2) (ends ic r1 (b, s)))"
| "ends ic (Alt r1 r2) (b, s) = ends ic r1 (b, s) @ ends ic r2 (b, s)"
| "ends ic (Star r) (b, s) =
     concat (map (ends ic (Star r))
               (filter (\<lambda>(b', s'). length s' < length s) (ends ic r (b, s)))) @ [(b, s)]"
| "ends ic Bol (b, s) = (if b then [(b, s)] else [])"
| "ends ic Eol (b, s) = (if s = [] \<or> s = [CHR 0x0A] then [(b, s)] else [])"
  by pat_completeness auto
termination
  by (relation "measures [\<lambda>(ic, r, b, s). rx_size r, \<lambda>(ic, r, b, s). length s]") auto

text \<open>Pattern builders.\<close>

definition chr :: "char \<Rightarrow> rx" where
  "chr c = Cls (\<lambda>x. x = c)"

fun seqs :: "rx list \<Rightarrow> rx" where
  "seqs [] = Eps"
| "seqs [r] = r"
| "seqs (r # rs) = Seq r (seqs rs)"

fun alts :: "rx list \<Rightarrow> rx" where
  "alts [] = Eps"
| "alts [r] = r"
| "alts (r # rs) = Alt r (alts rs)"

definition lit :: "string \<Rightarrow> rx" where
  "lit s = seqs (map chr s)"

definition rx_plus :: "rx \<Rightarrow> rx" where
  "rx_plus r = Seq r (Star r)"

definition rx_opt :: "rx \<Rightarrow> rx" where
  "rx_opt r = Alt r Eps"

definition at_least :: "nat \<Rightarrow> rx \<Rightarrow> rx" where
  "at_least n r = seqs (replicate n r @ [Star r])"

definition digit :: rx where "digit = Cls is_digit_c"
definition space :: rx where "space = Cls is_space_c"
definition any_c :: rx where "any_c = Cls (\<lambda>c. c \<noteq> CHR 0x0A)"
definition upper_az :: rx where "upper_az = Cls is_upper_c"

text \<open>\<open>re.match(p, s)\<close> as a truth value: \<open>p\<close> matches at the start of \<open>s\<close>.\<close>

definition re_match :: "bool \<Rightarrow> rx \<Rightarrow> string \<Rightarrow> bool" where
  "re_match ic r s = (ends ic r (True, s) \<noteq> [])"

text \<open>
  \<open>re.sub(p, repl, s)\<close> for a replacement without group references: the text is scanned
  from the left, the first match that \<open>re\<close> finds at the leftmost position is replaced,
  and the scan goes on where the match ended. After a match of the empty string the next
  character is copied. (The two patterns of the program that can match the empty string
  have the empty replacement.)
\<close>

function re_sub_from :: "rx \<Rightarrow> string \<Rightarrow> bool \<times> string \<Rightarrow> string" where
  "re_sub_from r repl (b, s) =
     (case ends False r (b, s) of
        [] \<Rightarrow> (case s of [] \<Rightarrow> [] | c # cs \<Rightarrow> c # re_sub_from r repl (False, cs))
      | (b', s') # other \<Rightarrow>
          if length s' < length s then repl @ re_sub_from r repl (False, s')
          else repl @ (case s of [] \<Rightarrow> [] | c # cs \<Rightarrow> c # re_sub_from r repl (False, cs)))"
  by pat_completeness auto
termination
  by (relation "measure (\<lambda>(r, repl, b, s). length s)") auto

definition re_sub :: "rx \<Rightarrow> string \<Rightarrow> string \<Rightarrow> string" where
  "re_sub r repl s = re_sub_from r repl (True, s)"

section \<open>helper.py: the heading analyzer\<close>

text \<open>The dataclass \<open>Heading\<close>. A bounding box is (left, top, right, bottom) or \<open>None\<close>.\<close>

type_synonym bbox = "real \<times> real \<times> real \<times> real"

record Heading =
  h_text :: string
  h_level :: string
  h_page :: int
  h_bbox :: "bbox option"
  h_font_size :: real
  h_font_name :: string
  h_confidence :: real

subsection \<open>The multi-factor classifier\<close>

text \<open>The numbering patterns \<open>^\\d+\\.?\\s+\<close>, \<open>^\\d+\\.\\d+\\.?\\s+\<close> and \<open>^\\d+\\.\\d+\\.\\d+\\.?\\s+\<close>.\<close>

definition numbered1 :: rx where
  "numbered1 = seqs [Bol, rx_plus digit, rx_opt (chr CHR ''.''), rx_plus space]"

definition numbered2 :: rx where
  "numbered2 = seqs [Bol, rx_plus digit, chr CHR ''.'', rx_plus digit, rx_opt (chr CHR ''.''),
                     rx_plus space]"

definition numbered3 :: rx where
  "numbered3 = seqs [Bol, rx_plus digit, chr CHR ''.'', rx_plus digit, chr CHR ''.'',
                     rx_plus digit, rx_opt (chr CHR ''.''), rx_plus space]"

definition analyze_text_patterns :: "string \<Rightarrow> real" where
  "analyze_text_patterns txt =
     (let score = 0;
          score = (if re_match False numbered1 txt then score + 1.0
                   else if re_match False numbered2 txt then score + 0.8
                   else if re_match False numbered3 txt then score + 0.6
                   else score);
          score = (if istitle txt then score + 0.6 else score);
          score = (if isupper txt \<and> word_count txt \<le> 8 then score + 0.7 else score);
          wc = word_count txt;
          score = (if wc > 20 then score - 0.8 else if wc > 15 then score - 0.5 else score);
          score = (if list_ex (\<lambda>word. contains (lower txt) word)
                        [''chapter'', ''section'', ''part'', ''introduction'', ''conclusion'']
                   then score + 0.8 else score)
      in score)"

definition analyze_typography :: "string \<Rightarrow> real" where
  "analyze_typography font_name =
     (if font_name = [] then 0.0
      else let font_lower = lower font_name in
        if list_ex (\<lambda>weight. contains font_lower weight) [''bold'', ''black'', ''heavy'']
        then 1.0
        else if list_ex (\<lambda>weight. contains font_lower weight) [''medium'', ''semi'']
        then 0.5
        else 0.0)"

definition analyze_position :: "bbox option \<Rightarrow> int \<Rightarrow> real" where
  "analyze_position box pg =
     (case box of
        None \<Rightarrow> 0.0
      | Some (x0, y0, x1, y1) \<Rightarrow>
          (let score = 0.0;
               score = (if 100 < y0 \<and> y0 < 250 then score + 0.5 else score);
               score = (if pg = 1 then score + 0.3 else score)
           in score))"

text \<open>
  \<open>_calculate_heading_level\<close>. \<open>mean_size\<close> and \<open>std_size\<close> are the mean and the standard
  deviation of the candidates' font sizes; the result is the level (the empty string for
  none) and the confidence.
\<close>

definition calculate_heading_level :: "Heading \<Rightarrow> real \<Rightarrow> real \<Rightarrow> string \<times> real" where
  "calculate_heading_level heading mean_size std_size =
     (let font_score = (h_font_size heading - mean_size) / (std_size + 1 / 1000000);
          pattern_score = analyze_text_patterns (h_text heading);
          format_score = analyze_typography (h_font_name heading);
          position_score = analyze_position (h_bbox heading) (h_page heading);
          total_score = 0.4 * font_score + 0.3 * pattern_score +
                        0.2 * format_score + 0.1 * position_score
      in if total_score > 1.5 \<or> font_score > 2.0
         then (''H1'', min 0.95 (0.7 + total_score * 0.1))
         else if total_score > 0.8 \<or> font_score > 1.0
         then (''H2'', min 0.9 (0.6 + total_score * 0.1))
         else if total_score > 0.3 \<or> font_score > 0.5
         then (''H3'', min 0.85 (0.5 + total_score * 0.1))
         else ([], 0.0))"

subsection \<open>What the PDF layer hands over\<close>

text \<open>
  PyMuPDF's \<open>page.get_text("dict")\<close>: a page is a list of blocks, a text block a list of
  lines, a line a list of spans; an image block has no lines. \<open>p_plain\<close> is the page's
  \<open>get_text()\<close>. The table of contents is a list of (level, title, page).
\<close>

record span =
  s_text :: string
  s_size :: real
  s_font :: string
  s_bbox :: bbox
  s_flags :: nat

type_synonym line = "span list"

type_synonym block = "line list option"

record page =
  p_blocks :: "block list"
  p_height :: real
  p_width :: real
  p_plain :: string

record document =
  d_pages :: "page list"
  d_toc :: "(int \<times> string \<times> int) list"

text \<open>The lines of the text blocks of a page, in the order of the two nested loops.\<close>

definition page_lines :: "page \<Rightarrow> line list" where
  "page_lines pg = concat (map (\<lambda>blk. case blk of None \<Rightarrow> [] | Some ls \<Rightarrow> ls) (p_blocks pg))"

text \<open>An entry of the outline, and the dictionary that the entry points return.\<close>

record entry =
  e_level :: string
  e_text :: string
  e_page :: int

record outline_result =
  r_title :: string
  r_outline :: "entry list"
  r_error :: "string option"

subsection \<open>Candidate filter\<close>

definition union_bbox :: "bbox \<Rightarrow> bbox \<Rightarrow> bbox" where
  "union_bbox a b =
     (case a of (a0, a1, a2, a3) \<Rightarrow> case b of (b0, b1, b2, b3) \<Rightarrow>
        (min a0 b0, min a1 b1, max a2 b2, max a3 b3))"

text \<open>Python's \<open>max(xs)\<close> on a list that is not empty, and \<open>max(xs, key=f)\<close>: the first
  element among those with the greatest key.\<close>

fun max_by :: "('a \<Rightarrow> 'k::linorder) \<Rightarrow> 'a \<Rightarrow> 'a list \<Rightarrow> 'a" where
  "max_by key best [] = best"
| "max_by key best (x # xs) = max_by key (if key best < key x then x else best) xs"

definition max_list :: "real list \<Rightarrow> real" where
  "max_list xs = (case xs of [] \<Rightarrow> 0 | x # rest \<Rightarrow> max_by (\<lambda>v. v) x rest)"

definition fragments :: "string list" where
  "fragments = [''quest f'', ''r pr'', ''oposal'', ''rfp:'', ''request f'', ''quest for pr'',
     ''r proposal'', ''for pr'', ''pr'', ''quest'', ''equest'', ''r'', ''f'', ''quest for'',
     ''proposal'', ''present'', ''developing'', ''business'', ''plan'', ''ontario'',
     ''digital'', ''library'']"

text \<open>The ten patterns of \<open>_is_header_or_footer\<close>, in the order of the source.\<close>

definition header_footer_patterns :: "rx list" where
  "header_footer_patterns =
     [seqs [Bol, rx_plus digit, Eol],
      seqs [Bol, lit ''page'', rx_plus space, rx_plus digit],
      seqs [Bol, rx_plus digit, Star space, chr CHR ''/'', Star space, rx_plus digit, Eol],
      seqs [Bol, chr (CHR 0xA9), Star any_c],
      seqs [Bol, lit ''copyright'', Star any_c],
      seqs [Bol, lit ''all rights reserved''],
      seqs [Bol, rx_plus (Cls is_word_c), chr CHR ''.'', alts [lit ''com'', lit ''org'', lit ''net'']],
      seqs [Bol, lit ''www'', chr CHR ''.''],
      seqs [Bol, lit ''http'', rx_opt (chr CHR ''s''), lit ''://''],
      alts [seqs [Bol, lit ''draft'', Eol], seqs [Bol, lit ''confidential'', Eol],
            seqs [Bol, lit ''proprietary'', Eol]]]"

definition is_header_or_footer :: "string \<Rightarrow> bbox option \<Rightarrow> real \<Rightarrow> real \<Rightarrow> bool" where
  "is_header_or_footer txt box page_height page_width =
     (case box of
        None \<Rightarrow> False
      | Some (x0, y0, x1, y1) \<Rightarrow>
          (let header_threshold = page_height * 0.1;
               footer_threshold = page_height * 0.9;
               y_position = y0
           in if y_position < header_threshold \<or> y_position > footer_threshold then True
              else (let text_lower = strip (lower txt)
                    in list_ex (\<lambda>pattern. re_match False pattern text_lower)
                         header_footer_patterns)))"

definition is_potential_heading ::
  "string \<Rightarrow> real list \<Rightarrow> string list \<Rightarrow> bbox option \<Rightarrow> real \<Rightarrow> real \<Rightarrow> bool" where
  "is_potential_heading txt font_sizes font_names box page_height page_width =
     (if txt = [] \<or> length txt < 3 then False
      else if length txt > 200 then False
      else (let text_lower = strip (lower txt) in
        if List.member fragments text_lower then False
        else if length txt < 5 \<and> \<not> isupper txt then False
        else if length txt < 8 \<and> \<not> list_ex (\<lambda>vowel. contains text_lower [vowel]) ''aeiou''
                \<and> \<not> isupper txt then False
        else if (case txt of [] \<Rightarrow> False | c # cs \<Rightarrow> islower_c c) then False
        else if is_header_or_footer txt box page_height page_width then False
        else if font_sizes \<noteq> [] \<and> max_list font_sizes < 8 then False
        else True))"

text \<open>
  The loop over the spans of a line in \<open>_extract_page_headings\<close>: it builds the line's
  text, the font sizes, the font names and the union of the bounding boxes, from the
  spans whose stripped text is not empty.
\<close>

fun scan_spans :: "span list \<Rightarrow> string \<times> real list \<times> string list \<times> bbox option \<Rightarrow>
    string \<times> real list \<times> string list \<times> bbox option" where
  "scan_spans [] acc = acc"
| "scan_spans (sp # sps) (line_text, font_sizes, font_names, box) =
     (let t = strip (s_text sp) in
      if t \<noteq> [] then
        scan_spans sps (line_text @ t @ '' '', font_sizes @ [s_size sp], font_names @ [s_font sp],
          (case box of None \<Rightarrow> Some (s_bbox sp) | Some b \<Rightarrow> Some (union_bbox b (s_bbox sp))))
      else scan_spans sps (line_text, font_sizes, font_names, box))"

text \<open>
  \<open>max(set(font_names), key=font_names.count)\<close> depends on the order in which Python
  iterates over the set. That order is the parameter \<open>set_iter\<close>: it maps the list of
  names to the sequence in which the elements of its set come.
\<close>

type_synonym set_order = "string list \<Rightarrow> string list"

definition dominant_font :: "set_order \<Rightarrow> string list \<Rightarrow> string" where
  "dominant_font set_iter font_names =
     (case set_iter font_names of
        [] \<Rightarrow> []
      | n # ns \<Rightarrow> max_by (\<lambda>x. count_list font_names x) n ns)"

text \<open>One line of a page: the candidate it gives, if any.\<close>

definition line_heading :: "set_order \<Rightarrow> real \<Rightarrow> real \<Rightarrow> int \<Rightarrow> line \<Rightarrow> Heading list" where
  "line_heading set_iter page_height page_width page_num text_line =
     (case scan_spans text_line ([], [], [], None) of
        (line_text0, font_sizes, font_names, box) \<Rightarrow>
          (let line_text = strip line_text0 in
           if is_potential_heading line_text font_sizes font_names box page_height page_width
           then [\<lparr>h_text = line_text, h_level = [], h_page = page_num, h_bbox = box,
                  h_font_size = (if font_sizes \<noteq> [] then max_list font_sizes else 0),
                  h_font_name = (if font_names \<noteq> [] then dominant_font set_iter font_names else []),
                  h_confidence = 0.0\<rparr>]
           else []))"

definition extract_page_headings :: "set_order \<Rightarrow> page \<Rightarrow> int \<Rightarrow> Heading list" where
  "extract_page_headings set_iter pg page_num =
     concat (map (line_heading set_iter (p_height pg) (p_width pg) page_num) (page_lines pg))"

subsection \<open>Adjacency merger\<close>

definition should_merge :: "Heading \<Rightarrow> Heading \<Rightarrow> bool" where
  "should_merge heading1 heading2 =
     (if h_page heading1 \<noteq> h_page heading2 then False
      else if \<bar>h_font_size heading1 - h_font_size heading2\<bar> > 1.0 then False
      else if h_font_name heading1 \<noteq> h_font_name heading2 then False
      else if (case (h_bbox heading1, h_bbox heading2) of
                 (Some (a0, a1, a2, a3), Some (b0, b1, b2, b3)) \<Rightarrow> \<bar>b1 - a3\<bar> > 30
               | other \<Rightarrow> False) then False
      else if length (h_text heading1) + length (h_text heading2) + 1 > 300 then False
      else True)"

text \<open>The sort key \<open>(x.page, x.bbox[1] if x.bbox else 0)\<close>; \<open>list.sort\<close> is stable.\<close>

definition box_top :: "bbox option \<Rightarrow> real" where
  "box_top box = (case box of None \<Rightarrow> 0 | Some (x0, y0, x1, y1) \<Rightarrow> y0)"

definition sort_pos :: "Heading \<Rightarrow> int \<times> real" where
  "sort_pos x = (h_page x, box_top (h_bbox x))"

text \<open>One step of the inner loop: the text and the box of the run after \<open>next_heading\<close>.\<close>

definition absorb :: "string \<times> bbox option \<Rightarrow> Heading \<Rightarrow> string \<times> bbox option" where
  "absorb acc next_heading =
     (case acc of (merged_text, merged_bbox) \<Rightarrow>
        (merged_text @ '' '' @ h_text next_heading,
         case (merged_bbox, h_bbox next_heading) of
           (Some a, Some b) \<Rightarrow> Some (union_bbox a b)
         | other \<Rightarrow> merged_bbox))"

text \<open>
  The two nested loops on the sorted list. The inner loop takes the headings after
  \<open>current\<close> for as long as \<open>_should_merge(current, headings[j])\<close> holds; the outer loop
  goes on with the first heading that was not taken.
\<close>

function merge_loop :: "Heading list \<Rightarrow> Heading list" where
  "merge_loop [] = []"
| "merge_loop (current # rest) =
     (case foldl absorb (h_text current, h_bbox current) (takeWhile (should_merge current) rest) of
        (merged_text, merged_bbox) \<Rightarrow>
          \<lparr>h_text = strip merged_text, h_level = [], h_page = h_page current,
            h_bbox = merged_bbox, h_font_size = h_font_size current,
            h_font_name = h_font_name current, h_confidence = 0.0\<rparr>
          # merge_loop (dropWhile (should_merge current) rest))"
  by pat_completeness auto
termination
  by (relation "measure length") (auto simp: length_dropWhile_le le_imp_less_Suc)

definition merge_adjacent_headings :: "Heading list \<Rightarrow> Heading list" where
  "merge_adjacent_headings headings =
     (if headings = [] then headings else merge_loop (sort_key sort_pos headings))"

subsection \<open>Classification of the merged candidates\<close>

text \<open>\<open>numpy.mean\<close> and \<open>numpy.std\<close> (the population standard deviation).\<close>

definition np_mean :: "real list \<Rightarrow> real" where
  "np_mean xs = sum_list xs / real (length xs)"

definition np_std :: "real list \<Rightarrow> real" where
  "np_std xs = sqrt (sum_list (map (\<lambda>x. (x - np_mean xs)\<^sup>2) xs) / real (length xs))"

definition classify_one :: "string \<Rightarrow> real \<Rightarrow> real \<Rightarrow> Heading \<Rightarrow> entry list" where
  "classify_one title mean_size std_size heading =
     (if h_text heading = title then []
      else (case calculate_heading_level heading mean_size std_size of
              (level, confidence) \<Rightarrow>
                if level \<noteq> [] \<and> confidence > 0.3
                then [\<lparr>e_level = level, e_text = h_text heading, e_page = h_page heading\<rparr>]
                else []))"

definition classify_headings :: "Heading list \<Rightarrow> outline_result" where
  "classify_headings headings0 =
     (if headings0 = [] then \<lparr>r_title = [], r_outline = [], r_error = None\<rparr>
      else (let font_sizes = map h_font_size headings0;
                mean_size = np_mean font_sizes;
                std_size = (if length font_sizes > 1 then np_std font_sizes else 1);
                headings = sort_key sort_pos headings0;
                page1_headings = filter (\<lambda>h. h_page h = 1) headings;
                title = (case page1_headings of
                           [] \<Rightarrow> []
                         | h # hs \<Rightarrow> h_text (max_by h_font_size h hs));
                outline = concat (map (classify_one title mean_size std_size) headings);
                outline = sort_key e_page outline
            in \<lparr>r_title = title, r_outline = outline, r_error = None\<rparr>))"

subsection \<open>Entry points of helper.py\<close>

text \<open>
  \<open>fitz.open\<close> either gives the document or raises; its outcome is \<open>Inr\<close> of the document
  or \<open>Inl\<close> of the exception's message.
\<close>

definition all_headings :: "set_order \<Rightarrow> document \<Rightarrow> Heading list" where
  "all_headings set_iter doc =
     concat (map (\<lambda>(page_num, pg). extract_page_headings set_iter pg (int page_num + 1))
               (enumerate 0 (d_pages doc)))"

definition analyze_pdf_from_doc :: "set_order \<Rightarrow> document \<Rightarrow> outline_result" where
  "analyze_pdf_from_doc set_iter doc =
     classify_headings (merge_adjacent_headings (all_headings set_iter doc))"

definition analyze_pdf :: "set_order \<Rightarrow> string + document \<Rightarrow> string + outline_result" where
  "analyze_pdf set_iter opened =
     (case opened of
        Inl exc \<Rightarrow> Inl exc
      | Inr doc \<Rightarrow> Inr (classify_headings (merge_adjacent_headings (all_headings set_iter doc))))"

definition analyze_pdf_headings :: "set_order \<Rightarrow> string + document \<Rightarrow> outline_result" where
  "analyze_pdf_headings set_iter opened =
     (case analyze_pdf set_iter opened of
        Inr results \<Rightarrow> results
      | Inl e \<Rightarrow> \<lparr>r_title = [], r_outline = [], r_error = Some (''Analysis failed: '' @ e)\<rparr>)"

section \<open>main.py: the outline extractor\<close>

subsection \<open>The pattern tables of \<open>PDFOutlineExtractor\<close>\<close>

definition h1_patterns :: "rx list" where
  "h1_patterns =
     [seqs [Bol, alts [lit ''Chapter'', lit ''CHAPTER''], rx_plus space, rx_plus digit],
      seqs [Bol, alts [lit ''Appendix'', lit ''APPENDIX''], Star space, rx_opt upper_az,
            rx_opt (chr CHR '':''), Star space],
      seqs [Bol, rx_plus digit, chr CHR ''.'', rx_plus space, upper_az, Star any_c],
      seqs [Bol, alts [lit ''Summary'', lit ''Background'', lit ''Introduction'', lit ''Overview'',
                       lit ''Conclusion'', lit ''References'',
                       Seq (lit ''Acknowledgement'') (rx_opt (chr CHR ''s''))], Eol],
      seqs [Bol, alts [seqs [lit ''Table'', rx_plus space, lit ''of'', rx_plus space, lit ''Contents''],
                       seqs [lit ''Revision'', rx_plus space, lit ''History'']], Eol],
      seqs [Bol, alts [lit ''Phase'', lit ''PHASE''], rx_plus space,
            alts [Seq (chr CHR ''I'') (rx_opt (Seq (chr CHR ''I'') (rx_opt (chr CHR ''I'')))),
                  Cls (\<lambda>c. c = CHR ''1'' \<or> c = CHR ''2'' \<or> c = CHR ''3'')],
            rx_opt (chr CHR '':''), Star space],
      seqs [Bol, upper_az, at_least 10 (Cls (\<lambda>c. is_upper_c c \<or> is_space_c c)), Eol],
      seqs [Bol, lit ''PATHWAY'', rx_plus space, lit ''OPTIONS'', Eol],
      seqs [Bol, lit ''HOPE'', rx_plus space, lit ''To'', rx_plus space, lit ''SEE'', rx_plus space,
            lit ''You'', rx_plus space, lit ''THERE!'', Eol]]"

definition h2_patterns :: "rx list" where
  "h2_patterns =
     [seqs [Bol, rx_plus digit, chr CHR ''.'', rx_plus digit, rx_plus space, upper_az, Star any_c]]"

definition h3_patterns :: "rx list" where
  "h3_patterns =
     [seqs [Bol, rx_plus digit, chr CHR ''.'', rx_plus digit, chr CHR ''.'', rx_plus digit,
            rx_plus space, upper_az, Star any_c],
      seqs [Bol, upper_az, rx_plus (Cls (\<lambda>c. is_lower_c c \<or> is_space_c c)), chr CHR '':'',
            Star space, Eol]]"

definition form_keywords :: "string list" where
  "form_keywords = [''application form'', ''grant of ltc'', ''government servant'',
     ''designation'', ''service book'', ''signature'']"

subsection \<open>Form detection\<close>

definition is_form_document :: "document \<Rightarrow> bool" where
  "is_form_document doc =
     (if length (d_pages doc) > 5 then False
      else (let txt = concat (map (\<lambda>pg. lower (p_plain pg))
                                (take (min 3 (length (d_pages doc))) (d_pages doc)));
                form_score = length (filter (\<lambda>keyword. contains txt keyword) form_keywords);
                form_score = (if length txt < 800 then form_score + 1 else form_score);
                form_score = (if contains txt ''ltc'' \<and> contains txt ''advance''
                              then form_score + 2 else form_score)
            in form_score \<ge> 3))"

subsection \<open>Text repair\<close>

text \<open>
  \<open>re.sub(r'(.)\\1{3,}', r'\\1', text)\<close>: a character other than the line feed that is
  followed by three or more copies of itself is kept once, and the whole run is dropped.
\<close>

function collapse_repeats :: "string \<Rightarrow> string" where
  "collapse_repeats [] = []"
| "collapse_repeats (c # cs) =
     (if c \<noteq> CHR 0x0A \<and> length (takeWhile (\<lambda>x. x = c) cs) \<ge> 3
      then c # collapse_repeats (dropWhile (\<lambda>x. x = c) cs)
      else c # collapse_repeats cs)"
  by pat_completeness auto
termination
  by (relation "measure length") (auto simp: length_dropWhile_le le_imp_less_Suc)

text \<open>
  \<open>re.sub(r'([a-z])([A-Z])', r'\\1 \\2', text)\<close>: a space goes between a lower-case letter
  and the upper-case letter after it; the scan goes on behind the pair.
\<close>

fun space_camel :: "string \<Rightarrow> string" where
  "space_camel (a # b # cs) =
     (if is_lower_c a \<and> is_upper_c b then a # CHR '' '' # b # space_camel cs
      else a # space_camel (b # cs))"
| "space_camel cs = cs"

definition non_word :: rx where
  "non_word = Cls (\<lambda>c. \<not> is_word_c c \<and> \<not> is_space_c c)"

definition clean_text :: "string \<Rightarrow> string" where
  "clean_text text0 =
     (if text0 = [] then []
      else (let txt = collapse_repeats text0;
                txt = re_sub (rx_plus space) '' '' txt;
                txt = space_camel txt;
                txt = re_sub (Seq Bol (Star non_word)) [] txt;
                txt = re_sub (Seq (Star non_word) Eol) [] txt
            in strip txt))"

subsection \<open>Title cleanup and the request-for-proposal reconstruction\<close>

definition full_rfp_title :: string where
  "full_rfp_title = ''RFP:Request for Proposal To Present a Proposal for Developing the Business Plan for the Ontario Digital Library''"

definition partial_rfp_title :: string where
  "partial_rfp_title = ''RFP:Request for Proposal''"

text \<open>The nine substitutions at the head of \<open>_cleanup_extracted_title\<close>.\<close>

definition repair_fragments :: "string \<Rightarrow> string" where
  "repair_fragments title0 =
     (let title = re_sub (rx_plus (seqs [lit ''RFP:'', Star space, chr CHR ''R'', Star space]))
                    ''RFP:'' title0;
          title = re_sub (rx_plus (seqs [lit ''quest'', Star space, chr CHR ''f'', Star space]))
                    ''quest for '' title;
          title = re_sub (seqs [chr CHR ''R'', Star space, lit ''quest'', Star space, lit ''fo'',
                                rx_opt (chr CHR ''r'')]) ''Request for'' title;
          title = re_sub (lit ''equest'') ''Request'' title;
          title = re_sub (seqs [lit ''Pr'', Star space, lit ''oposal'']) ''Proposal'' title;
          title = re_sub (lit ''oposal'') ''Proposal'' title;
          title = re_sub (rx_plus (seqs [Star space, chr CHR ''r'', Star space, lit ''Pr'',
                                         Star space])) '' '' title;
          title = re_sub (seqs [lit ''RFP:'', Star space, lit ''RFP:'']) ''RFP:'' title;
          title = re_sub (rx_plus space) '' '' title
      in title)"

text \<open>The part of \<open>_cleanup_extracted_title\<close> behind the reconstruction block.\<close>

definition cleanup_fallback :: "string \<Rightarrow> string" where
  "cleanup_fallback title0 =
     (let title = re_sub (seqs [lit ''Request'', rx_plus space, lit ''for'', rx_plus space,
                                chr CHR ''o'', Star space, Eol]) ''Request for Proposal'' title0;
          title = re_sub (seqs [lit ''RFP:'', Star space, lit ''Request'', rx_plus space, lit ''for'',
                                rx_plus space, lit ''oposal'', Star any_c])
                    ''RFP:Request for Proposal'' title;
          title = re_sub (seqs [lit ''quest'', rx_plus space, lit ''for'', rx_plus space,
                                lit ''Proposal'', Star any_c]) ''Request for Proposal'' title
      in if contains title ''RFP:'' \<and> (contains title ''Request'' \<or> contains title ''quest'')
            \<and> contains title ''Proposal''
         then full_rfp_title
         else strip title)"

definition cleanup_extracted_title :: "string \<Rightarrow> string" where
  "cleanup_extracted_title title0 =
     (if title0 = [] then []
      else (let original = title0;
                title = repair_fragments title0
            in if contains title ''RFP:'' \<and> (contains title ''quest'' \<or> contains title ''Request'')
               then (let combined_text = title @ '' '' @ original;
                         has_request = (contains combined_text ''Request'' \<or>
                                        contains combined_text ''quest'' \<or>
                                        contains combined_text ''equest'');
                         has_proposal = (contains combined_text ''Proposal'' \<or>
                                         contains combined_text ''oposal'');
                         has_present = contains combined_text ''Present'';
                         has_developing = contains combined_text ''Developing'';
                         has_business = contains combined_text ''Business'';
                         has_ontario = contains combined_text ''Ontario'';
                         has_digital = contains combined_text ''Digital'';
                         has_library = contains combined_text ''Library''
                     in if has_request \<and> has_proposal then full_rfp_title
                        else if has_request then partial_rfp_title
                        else cleanup_fallback title)
               else cleanup_fallback title))"

subsection \<open>Title extraction\<close>

text \<open>Python's \<open>round\<close> to an integer: to the nearest, a tie to the even one.\<close>

definition py_round :: "real \<Rightarrow> int" where
  "py_round x =
     (let f = \<lfloor>x\<rfloor>; d = x - of_int f
      in if d < 1 / 2 then f else if d > 1 / 2 then f + 1 else if even f then f else f + 1)"

record text_element =
  te_text :: string
  te_font_size :: real
  te_is_bold :: bool
  te_y_pos :: real
  te_x_pos :: real

text \<open>The spans of a line without those that start where an earlier span started.\<close>

fun unique_spans :: "span list \<Rightarrow> (int \<times> int) list \<Rightarrow> span list" where
  "unique_spans [] seen_positions = []"
| "unique_spans (sp # sps) seen_positions =
     (let pos_key = (case s_bbox sp of (x0, y0, x1, y1) \<Rightarrow> (py_round x0, py_round y0))
      in if \<not> List.member seen_positions pos_key
         then sp # unique_spans sps (pos_key # seen_positions)
         else unique_spans sps seen_positions)"

definition line_element :: "real \<Rightarrow> line \<Rightarrow> text_element list" where
  "line_element max_font text_line =
     (let spans = unique_spans text_line [];
          line_text = concat (map s_text spans);
          line_font_size = foldl (\<lambda>m sp. max m (s_size sp)) 0 spans;
          line_is_bold = list_ex (\<lambda>sp. bit (s_flags sp) 4) spans;
          line_bbox = (case spans of [] \<Rightarrow> None | sp # remaining \<Rightarrow> Some (s_bbox sp));
          line_text = clean_text line_text
      in if line_text \<noteq> [] \<and> length line_text > 2 \<and> line_font_size \<ge> max_font * 0.6
            \<and> \<not> isdigit line_text
            \<and> \<not> re_match False (seqs [Bol, lit ''page'', rx_plus space, rx_plus digit])
                  (lower line_text)
         then [\<lparr>te_text = line_text, te_font_size = line_font_size, te_is_bold = line_is_bold,
                te_y_pos = (case line_bbox of None \<Rightarrow> 0 | Some (x0, y0, x1, y1) \<Rightarrow> y0),
                te_x_pos = (case line_bbox of None \<Rightarrow> 0 | Some (x0, y0, x1, y1) \<Rightarrow> x0)\<rparr>]
         else [])"

text \<open>\<open>' '.join(parts)\<close>.\<close>

fun join_sp :: "string list \<Rightarrow> string" where
  "join_sp [] = []"
| "join_sp [x] = x"
| "join_sp (x # xs) = x @ '' '' @ join_sp xs"

text \<open>The loop over the first parts of the title: the first prefix whose cleanup is a
  long title with \<open>RFP:\<close> and \<open>Proposal\<close> is returned.\<close>

fun try_partials :: "string list \<Rightarrow> nat list \<Rightarrow> string option" where
  "try_partials title_parts [] = None"
| "try_partials title_parts (i # remaining) =
     (let partial_title = strip (join_sp (take i title_parts));
          cleaned_partial = cleanup_extracted_title partial_title
      in if contains cleaned_partial ''RFP:'' \<and> contains cleaned_partial ''Proposal''
            \<and> length cleaned_partial > 30
         then Some cleaned_partial
         else try_partials title_parts remaining)"

definition title_from_parts :: "string list \<Rightarrow> string" where
  "title_from_parts title_parts =
     (case title_parts of
        [] \<Rightarrow> []
      | first_part # remaining \<Rightarrow>
          (let full_title = strip (join_sp title_parts);
               cleaned_title = cleanup_extracted_title full_title
           in if contains cleaned_title ''RFP:'' \<and> length cleaned_title > 50 then cleaned_title
              else (case try_partials title_parts [1 ..< min (length title_parts + 1) 6] of
                      Some cleaned_partial \<Rightarrow> cleaned_partial
                    | None \<Rightarrow>
                        if length cleaned_title > 15 then cleaned_title
                        else cleanup_extracted_title first_part)))"

text \<open>
  \<open>_extract_title_carefully\<close> in two steps: \<open>title_parts\<close> is the list of that name that
  the source builds from the first page (empty where the source returns the empty title
  before building it), and \<open>title_from_parts\<close> is what it returns from the list.
\<close>

definition title_parts :: "document \<Rightarrow> string list" where
  "title_parts doc =
     (case d_pages doc of
        [] \<Rightarrow> []
      | pg # more_pages \<Rightarrow>
          (let max_font = foldl (\<lambda>m sp. max m (s_size sp)) 0 (concat (page_lines pg));
               text_elements = concat (map (line_element max_font) (page_lines pg))
           in case sort_key (\<lambda>x. (- te_font_size x, - te_y_pos x, te_x_pos x)) text_elements of
                [] \<Rightarrow> []
              | top_elem # others \<Rightarrow>
                  (let top_font = te_font_size top_elem;
                       similar_font_elements =
                         filter (\<lambda>elem. te_font_size elem \<ge> top_font * 0.9 \<and>
                                         te_font_size elem \<ge> max_font * 0.7)
                                (take 10 (top_elem # others));
                       similar_font_elements =
                         sort_key (\<lambda>x. (te_y_pos x, te_x_pos x)) similar_font_elements
                   in map te_text similar_font_elements)))"

definition extract_title_carefully :: "document \<Rightarrow> string" where
  "extract_title_carefully doc = title_from_parts (title_parts doc)"

subsection \<open>The outline from the table of contents and from the text\<close>

definition process_toc :: "(int \<times> string \<times> int) list \<Rightarrow> entry list" where
  "process_toc toc =
     concat (map (\<lambda>(level, title, pg).
                    if title = [] \<or> length (strip title) < 3 then []
                    else [\<lparr>e_level = (if level = 1 then ''H1'' else if level = 2 then ''H2''
                                        else if level = 3 then ''H3'' else ''H3''),
                           e_text = strip title,
                           e_page = max 1 pg\<rparr>]) toc)"

text \<open>The level that the pattern tables give to a line, with \<open>re.IGNORECASE\<close>.\<close>

definition pattern_level :: "string \<Rightarrow> string option" where
  "pattern_level txt =
     (if list_ex (\<lambda>pattern. re_match True pattern txt) h1_patterns then Some ''H1''
      else if list_ex (\<lambda>pattern. re_match True pattern txt) h2_patterns then Some ''H2''
      else if list_ex (\<lambda>pattern. re_match True pattern txt) h3_patterns then Some ''H3''
      else None)"

text \<open>
  The loops of \<open>_extract_headings_pattern_only\<close> over the lines of all pages, each line
  with the number of its page; the state is the list of headings and the set \<open>seen\<close>.
\<close>

fun pattern_scan :: "(int \<times> line) list \<Rightarrow> entry list \<times> string list \<Rightarrow> entry list \<times> string list" where
  "pattern_scan [] acc = acc"
| "pattern_scan ((page_num, text_line) # remaining) (headings, seen) =
     (let txt = strip (concat (map s_text text_line))
      in if List.member seen (lower txt) \<or> length txt < 3
         then pattern_scan remaining (headings, seen)
         else (case pattern_level txt of
                 Some level \<Rightarrow>
                   pattern_scan remaining
                     (headings @ [\<lparr>e_level = level, e_text = txt, e_page = page_num\<rparr>],
                      lower txt # seen)
               | None \<Rightarrow> pattern_scan remaining (headings, seen)))"

definition numbered_lines :: "document \<Rightarrow> (int \<times> line) list" where
  "numbered_lines doc =
     concat (map (\<lambda>(page_num, pg). map (\<lambda>l. (int page_num + 1, l)) (page_lines pg))
               (enumerate 0 (d_pages doc)))"

definition extract_headings_pattern_only :: "document \<Rightarrow> entry list" where
  "extract_headings_pattern_only doc = fst (pattern_scan (numbered_lines doc) ([], []))"

text \<open>
  \<open>_extract_from_text\<close>. Every operation of the analyzer is total on the data modelled
  here, so an exception inside \<open>analyze_pdf_from_doc\<close> can only come from the layers
  below (PyMuPDF, numpy); \<open>helper_exc\<close> is that exception, if there is one.
\<close>

definition extract_from_text :: "set_order \<Rightarrow> document \<Rightarrow> string option \<Rightarrow> entry list" where
  "extract_from_text set_iter doc helper_exc =
     (case helper_exc of
        None \<Rightarrow>
          map (\<lambda>item. \<lparr>e_level = e_level item, e_text = e_text item, e_page = e_page item\<rparr>)
              (r_outline (analyze_pdf_from_doc set_iter doc))
      | Some e \<Rightarrow> extract_headings_pattern_only doc)"

subsection \<open>The assembler\<close>

text \<open>
  \<open>extract_outline\<close>. \<open>opened\<close> is the outcome of \<open>fitz.open\<close>; an exception there is
  caught by the handler, which logs the message and returns the title \<open>Error\<close>.
\<close>

definition extract_outline ::
  "set_order \<Rightarrow> string + document \<Rightarrow> string option \<Rightarrow> outline_result" where
  "extract_outline set_iter opened helper_exc =
     (case opened of
        Inl e \<Rightarrow> \<lparr>r_title = ''Error'', r_outline = [], r_error = None\<rparr>
      | Inr doc \<Rightarrow>
          if is_form_document doc
          then \<lparr>r_title = extract_title_carefully doc, r_outline = [], r_error = None\<rparr>
          else (let toc = d_toc doc in
                if toc \<noteq> [] \<and> length toc > 2
                then (let outline = process_toc toc;
                          title = extract_title_carefully doc
                      in \<lparr>r_title = title, r_outline = outline, r_error = None\<rparr>)
                else (let outline = extract_from_text set_iter doc helper_exc;
                          title = extract_title_carefully doc
                      in \<lparr>r_title = title, r_outline = outline, r_error = None\<rparr>)))"

section \<open>The classifier and the table-of-contents mapping, in the words of the specification\<close>

text \<open>
  The weighted sum, the table of level rules (first matching rule wins) and the font
  score as the specification states them, for comparison with the code above.
\<close>

definition spec_total_score :: "real \<Rightarrow> real \<Rightarrow> real \<Rightarrow> real \<Rightarrow> real" where
  "spec_total_score font_score pattern_score format_score position_score =
     0.4 * font_score + 0.3 * pattern_score + 0.2 * format_score + 0.1 * position_score"

definition spec_assign :: "real \<Rightarrow> real \<Rightarrow> string \<times> real" where
  "spec_assign font_score total_score =
     (if total_score > 1.5 \<or> font_score > 2.0 then (''H1'', min 0.95 (0.7 + 0.1 * total_score))
      else if total_score > 0.8 \<or> font_score > 1.0 then (''H2'', min 0.9 (0.6 + 0.1 * total_score))
      else if total_score > 0.3 \<or> font_score > 0.5 then (''H3'', min 0.85 (0.5 + 0.1 * total_score))
      else ([], 0.0))"

definition spec_classifier :: "real \<Rightarrow> real \<Rightarrow> real \<Rightarrow> real \<Rightarrow> real \<Rightarrow> real \<Rightarrow> string \<times> real" where
  "spec_classifier sz m s pattern_score format_score position_score =
     (let font_score = (sz - m) / (s + 1 / 1000000)
      in spec_assign font_score
           (spec_total_score font_score pattern_score format_score position_score))"

text \<open>The order of the levels: H1 above H2 above H3 above none.\<close>

definition level_rank :: "string \<Rightarrow> nat" where
  "level_rank l = (if l = ''H1'' then 3 else if l = ''H2'' then 2 else if l = ''H3'' then 1 else 0)"

text \<open>The outline entry that the specification gives to an entry of the table of contents.\<close>

definition spec_toc_entry :: "int \<times> string \<times> int \<Rightarrow> entry" where
  "spec_toc_entry item =
     (case item of (level, title, pg) \<Rightarrow>
        \<lparr>e_level = (if level = 1 then ''H1'' else if level = 2 then ''H2'' else ''H3''),
         e_text = title, e_page = max 1 pg\<rparr>)"

section \<open>Lines in the header and footer bands\<close>

text \<open>
  A line lies in a band when the top of its bounding box, as \<open>_extract_page_headings\<close>
  computes it, is above a tenth or below nine tenths of the page height.
  \<open>drop_margin_lines\<close> removes those lines from every page of a document. The plain text
  of a page, which form detection reads, is PyMuPDF's \<open>get_text()\<close> and contains the text
  of the lines in the bands; \<open>plain_of pg\<close> stands for the plain text of the page \<open>pg\<close>
  once its band lines are removed.
\<close>

definition in_margin_band :: "real \<Rightarrow> line \<Rightarrow> bool" where
  "in_margin_band page_height text_line =
     (case scan_spans text_line ([], [], [], None) of
        (line_text, font_sizes, font_names, box) \<Rightarrow>
          (case box of
             None \<Rightarrow> False
           | Some (x0, y0, x1, y1) \<Rightarrow> y0 < page_height * 0.1 \<or> y0 > page_height * 0.9))"

definition drop_margin_lines_page :: "(page \<Rightarrow> string) \<Rightarrow> page \<Rightarrow> page" where
  "drop_margin_lines_page plain_of pg =
     pg\<lparr>p_blocks := map (map_option (filter (\<lambda>l. \<not> in_margin_band (p_height pg) l)))
                        (p_blocks pg),
        p_plain := plain_of pg\<rparr>"

definition drop_margin_lines :: "(page \<Rightarrow> string) \<Rightarrow> document \<Rightarrow> document" where
  "drop_margin_lines plain_of doc =
     doc\<lparr>d_pages := map (drop_margin_lines_page plain_of) (d_pages doc)\<rparr>"

section \<open>Example headings and documents\<close>

definition heading_big :: Heading where
  "heading_big = \<lparr>h_text = ''Project Scope'', h_level = [], h_page = 2,
     h_bbox = Some (72, 300, 400, 318), h_font_size = 16, h_font_name = ''Helvetica'',
     h_confidence = 0\<rparr>"

definition heading_small :: Heading where
  "heading_small = \<lparr>h_text = ''Project Goals'', h_level = [], h_page = 2,
     h_bbox = Some (72, 400, 400, 412), h_font_size = 12, h_font_name = ''Helvetica'',
     h_confidence = 0\<rparr>"

definition heading_long :: Heading where
  "heading_long = \<lparr>h_text = ''the quick brown fox jumps over the lazy dog and then it runs around the yard one two three four five six seven eight'',
     h_level = [], h_page = 3, h_bbox = Some (72, 400, 500, 412), h_font_size = 14,
     h_font_name = ''Times'', h_confidence = 0\<rparr>"

text \<open>A page without text, and a document of six such pages with a given table of contents.\<close>

definition blank_page :: page where
  "blank_page = \<lparr>p_blocks = [], p_height = 792, p_width = 612, p_plain = []\<rparr>"

definition bookmarked_doc :: "(int \<times> string \<times> int) list \<Rightarrow> document" where
  "bookmarked_doc toc =
     \<lparr>d_pages = [blank_page, blank_page, blank_page, blank_page, blank_page, blank_page],
      d_toc = toc\<rparr>"


definition toc_short_title :: "(int \<times> string \<times> int) list" where
  "toc_short_title = [(1, ''Introduction'', 1), (2, ''A'', 2), (1, '' Summary '', 3)]"

text \<open>A one-page document whose only line is its title, with a table of contents that
  lists the title.\<close>

definition report_title_span :: span where
  "report_title_span = \<lparr>s_text = ''Annual Report Overview'', s_size = 20, s_font = ''Arial'',
     s_bbox = (72, 200, 330, 224), s_flags = 0\<rparr>"

definition report_doc :: document where
  "report_doc =
     \<lparr>d_pages = [\<lparr>p_blocks = [Some [[report_title_span]]], p_height = 792, p_width = 612,
                  p_plain = ''Annual Report Overview''\<rparr>],
      d_toc = [(1, ''Annual Report Overview'', 1), (2, ''Scope'', 1), (2, ''Budget'', 1)]\<rparr>"

text \<open>A two-page document: a title and a numbered heading on the first page, a numbered
  heading on the second; no table of contents.\<close>

definition paper_doc :: document where
  "paper_doc =
     \<lparr>d_pages =
        [\<lparr>p_blocks = [Some [[\<lparr>s_text = ''Annual Report'', s_size = 20, s_font = ''Arial'',
                                 s_bbox = (72, 200, 300, 224), s_flags = 0\<rparr>],
                              [\<lparr>s_text = ''1. Introduction'', s_size = 12, s_font = ''Arial'',
                                 s_bbox = (72, 300, 200, 314), s_flags = 0\<rparr>]]],
           p_height = 792, p_width = 612, p_plain = ''Annual Report 1. Introduction''\<rparr>,
         \<lparr>p_blocks = [Some [[\<lparr>s_text = ''2. Methods'', s_size = 12, s_font = ''Arial'',
                                 s_bbox = (72, 120, 200, 134), s_flags = 0\<rparr>]]],
           p_height = 792, p_width = 612, p_plain = ''2. Methods''\<rparr>],
      d_toc = []\<rparr>"

text \<open>The first page of \<open>paper_doc\<close> alone.\<close>

definition cover_doc :: document where
  "cover_doc = \<lparr>d_pages = take 1 (d_pages paper_doc), d_toc = []\<rparr>"

text \<open>
  The first page of \<open>paper_doc\<close> with one more line, 22 points above the bottom of the
  page of 792 points, whose text is \<open>footer\<close>; \<open>body_text\<close> is the plain text of the page
  without that line.
\<close>

definition footer_line :: "string \<Rightarrow> line" where
  "footer_line footer = [\<lparr>s_text = footer, s_size = 12, s_font = ''Arial'',
     s_bbox = (72, 770, 300, 784), s_flags = 0\<rparr>]"

definition body_text :: string where
  "body_text = ''Annual Report'' @ [CHR 0x0A] @ ''1. Introduction'' @ [CHR 0x0A]"

definition footer_doc :: "string \<Rightarrow> document" where
  "footer_doc footer =
     \<lparr>d_pages =
        [\<lparr>p_blocks = [Some [[\<lparr>s_text = ''Annual Report'', s_size = 20, s_font = ''Arial'',
                                 s_bbox = (72, 200, 300, 224), s_flags = 0\<rparr>],
                              [\<lparr>s_text = ''1. Introduction'', s_size = 12, s_font = ''Arial'',
                                 s_bbox = (72, 300, 200, 314), s_flags = 0\<rparr>],
                              footer_line footer]],
           p_height = 792, p_width = 612, p_plain = body_text @ footer @ [CHR 0x0A]\<rparr>],
      d_toc = []\<rparr>"




section \<open>The classifier\<close>

lemma analyze_text_patterns_lower: "- 0.8 \<le> analyze_text_patterns t"
  by (simp add: analyze_text_patterns_def Let_def)

lemma analyze_typography_nonneg: "0 \<le> analyze_typography f"
  by (simp add: analyze_typography_def Let_def)

lemma analyze_position_nonneg: "0 \<le> analyze_position b p"
  by (simp add: analyze_position_def Let_def split: option.splits)

lemma calculate_heading_level_assign:
  "calculate_heading_level h m s =
     spec_assign ((h_font_size h - m) / (s + 1 / 1000000))
       (spec_total_score ((h_font_size h - m) / (s + 1 / 1000000))
          (analyze_text_patterns (h_text h)) (analyze_typography (h_font_name h))
          (analyze_position (h_bbox h) (h_page h)))"
  by (simp add: calculate_heading_level_def spec_assign_def spec_total_score_def Let_def
      mult.commute)

text \<open>
  C8. The classifier computes the font score as (size - mean) / (std + 1e-6) and the total
  score as 0.4 font + 0.3 pattern + 0.2 format + 0.1 position, and assigns the level and
  the confidence by the table of the specification, first matching rule first:
  \<open>_calculate_heading_level\<close> is equal to the classifier written from the specification,
  applied to the pattern, format and position scores of the heading.
\<close>

theorem classifier_follows_spec_table:
  "calculate_heading_level h m s =
     spec_classifier (h_font_size h) m s (analyze_text_patterns (h_text h))
       (analyze_typography (h_font_name h)) (analyze_position (h_bbox h) (h_page h))"
  by (simp add: calculate_heading_level_assign spec_classifier_def Let_def)

lemma level_mono:
  fixes f1 f2 :: real
  assumes "f2 \<le> f1"
  shows "level_rank (fst (spec_assign f2 (spec_total_score f2 p fm ps))) \<le>
         level_rank (fst (spec_assign f1 (spec_total_score f1 p fm ps)))"
  using assms by (auto simp: spec_assign_def spec_total_score_def level_rank_def)

text \<open>
  C9. Two headings classified against the same statistics, with equal pattern, format and
  position scores and font scores more than 1.0 apart: the heading with the higher font
  score never gets a lower level (H1 above H2 above H3 above none).
\<close>

theorem font_score_monotone:
  assumes "analyze_text_patterns (h_text h1) = analyze_text_patterns (h_text h2)"
    and "analyze_typography (h_font_name h1) = analyze_typography (h_font_name h2)"
    and "analyze_position (h_bbox h1) (h_page h1) = analyze_position (h_bbox h2) (h_page h2)"
    and "(h_font_size h1 - m) / (s + 1 / 1000000) - (h_font_size h2 - m) / (s + 1 / 1000000) > 1"
  shows "level_rank (fst (calculate_heading_level h2 m s)) \<le>
         level_rank (fst (calculate_heading_level h1 m s))"
proof -
  have le: "(h_font_size h2 - m) / (s + 1 / 1000000) \<le> (h_font_size h1 - m) / (s + 1 / 1000000)"
    using assms(4) by linarith
  show ?thesis
    unfolding calculate_heading_level_assign assms(1-3)
    by (rule level_mono [OF le])
qed

theorem font_score_monotone_witness:
  "(h_font_size heading_big - 11) / (2 + 1 / 1000000)
     - (h_font_size heading_small - 11) / (2 + 1 / 1000000) > 1 \<and>
   fst (calculate_heading_level heading_big 11 2) = ''H1'' \<and>
   level_rank (fst (calculate_heading_level heading_small 11 2)) \<le>
   level_rank (fst (calculate_heading_level heading_big 11 2))"
proof -
  have p: "analyze_text_patterns (h_text heading_big) = analyze_text_patterns (h_text heading_small)"
    by code_simp
  have t: "analyze_typography (h_font_name heading_big) =
           analyze_typography (h_font_name heading_small)"
    by code_simp
  have q: "analyze_position (h_bbox heading_big) (h_page heading_big) =
           analyze_position (h_bbox heading_small) (h_page heading_small)"
    by code_simp
  have d: "(h_font_size heading_big - 11) / (2 + 1 / 1000000)
     - (h_font_size heading_small - 11) / (2 + 1 / 1000000) > 1"
    by (simp add: heading_big_def heading_small_def)
  have b: "fst (calculate_heading_level heading_big 11 2) = ''H1''"
    by code_simp
  from font_score_monotone [OF p t q d] d b show ?thesis by blast
qed

lemma assign_confidence:
  fixes f t :: real
  assumes "0.4 * f - 0.24 \<le> t" and "fst (spec_assign f t) \<noteq> []"
  shows "snd (spec_assign f t) > 0.3"
  using assms by (auto simp: spec_assign_def min_def split: if_splits)

text \<open>
  C10. Whenever the classifier returns a level, the confidence it returns is above 0.3
  (the pattern score is at least -0.8, the format and position scores are not negative),
  so the emission test "level assigned and confidence above 0.3" is the same as "level
  assigned".
\<close>

theorem level_implies_confidence:
  "(fst (calculate_heading_level h m s) \<noteq> [] \<longrightarrow> snd (calculate_heading_level h m s) > 0.3) \<and>
   ((fst (calculate_heading_level h m s) \<noteq> [] \<and> snd (calculate_heading_level h m s) > 0.3) =
    (fst (calculate_heading_level h m s) \<noteq> []))"
proof -
  let ?f = "(h_font_size h - m) / (s + 1 / 1000000)"
  let ?t = "spec_total_score ?f (analyze_text_patterns (h_text h))
     (analyze_typography (h_font_name h)) (analyze_position (h_bbox h) (h_page h))"
  have "0.4 * ?f - 0.24 \<le> ?t"
    using analyze_text_patterns_lower [of "h_text h"] analyze_typography_nonneg [of "h_font_name h"]
      analyze_position_nonneg [of "h_bbox h" "h_page h"]
    by (simp add: spec_total_score_def)
  from assign_confidence [OF this] show ?thesis
    unfolding calculate_heading_level_assign by blast
qed

theorem level_implies_confidence_witness:
  "fst (calculate_heading_level heading_long 12 3) = ''H3'' \<and>
   snd (calculate_heading_level heading_long 12 3) > 0.3"
proof -
  have l: "fst (calculate_heading_level heading_long 12 3) = ''H3''"
    by code_simp
  then have "fst (calculate_heading_level heading_long 12 3) \<noteq> []"
    by simp
  with level_implies_confidence [of heading_long 12 3] l show ?thesis
    by blast
qed

section \<open>The assembler: paths of \<open>extract_outline\<close>\<close>

lemma concat_map_if:
  "concat (map (\<lambda>x. if P x then [] else [f x]) xs) = map f (filter (\<lambda>x. \<not> P x) xs)"
  by (induction xs) auto

lemma process_toc_map:
  "process_toc toc =
     map (\<lambda>(level, title, pg).
            \<lparr>e_level = (if level = 1 then ''H1'' else if level = 2 then ''H2'' else ''H3''),
             e_text = strip title, e_page = max 1 pg\<rparr>)
         (filter (\<lambda>(level, title, pg). 3 \<le> length (strip title)) toc)"
proof -
  have s: "strip [] = []" by (simp add: strip_def)
  have "process_toc toc =
     concat (map (\<lambda>x. if (case x of (level, title, pg) \<Rightarrow> length (strip title) < 3) then []
        else [(case x of (level, title, pg) \<Rightarrow>
            \<lparr>e_level = (if level = 1 then ''H1'' else if level = 2 then ''H2'' else ''H3''),
             e_text = strip title, e_page = max 1 pg\<rparr>)]) toc)"
    unfolding process_toc_def
    by (rule arg_cong [where f = concat], rule map_cong) (auto simp: s)
  also have "\<dots> = map (\<lambda>(level, title, pg).
            \<lparr>e_level = (if level = 1 then ''H1'' else if level = 2 then ''H2'' else ''H3''),
             e_text = strip title, e_page = max 1 pg\<rparr>)
         (filter (\<lambda>x. \<not> (case x of (level, title, pg) \<Rightarrow> length (strip title) < 3)) toc)"
    by (rule concat_map_if)
  also have "(\<lambda>x. \<not> (case x of (level, title, pg) \<Rightarrow> length (strip title) < 3)) =
     (\<lambda>(level, title, pg). 3 \<le> length (strip title))"
    by (auto simp: fun_eq_iff)
  finally show ?thesis .
qed

lemma extract_outline_form:
  "is_form_document doc \<Longrightarrow> extract_outline si (Inr doc) exc =
     \<lparr>r_title = extract_title_carefully doc, r_outline = [], r_error = None\<rparr>"
  by (simp add: extract_outline_def)

lemma extract_outline_toc:
  "\<not> is_form_document doc \<Longrightarrow> length (d_toc doc) > 2 \<Longrightarrow> extract_outline si (Inr doc) exc =
     \<lparr>r_title = extract_title_carefully doc, r_outline = process_toc (d_toc doc), r_error = None\<rparr>"
  by (auto simp: extract_outline_def Let_def)

lemma extract_outline_text:
  "\<not> is_form_document doc \<Longrightarrow> length (d_toc doc) \<le> 2 \<Longrightarrow> extract_outline si (Inr doc) exc =
     \<lparr>r_title = extract_title_carefully doc, r_outline = extract_from_text si doc exc,
       r_error = None\<rparr>"
  by (auto simp: extract_outline_def Let_def)

lemma extract_from_text_ok:
  "extract_from_text si doc None = r_outline (analyze_pdf_from_doc si doc)"
  by (simp add: extract_from_text_def map_idI)



lemma classify_one_text: "e \<in> set (classify_one title m s h) \<Longrightarrow> e_text e \<noteq> title"
  by (auto simp: classify_one_def split: if_splits prod.splits)

lemma classify_excludes_title:
  "e \<in> set (r_outline (classify_headings hs)) \<Longrightarrow> e_text e \<noteq> r_title (classify_headings hs)"
  by (auto simp: classify_headings_def Let_def dest: classify_one_text split: if_splits)







lemma bookmarked_not_form: "\<not> is_form_document (bookmarked_doc toc)"
  by (simp add: is_form_document_def bookmarked_doc_def)

lemma bookmarked_title: "extract_title_carefully (bookmarked_doc toc) = []"
  by (simp add: extract_title_carefully_def title_parts_def bookmarked_doc_def blank_page_def
      page_lines_def title_from_parts_def Let_def)

text \<open>
  C3, as the code has it. When \<open>fitz.open\<close> fails, \<open>extract_outline\<close> returns the title
  \<open>Error\<close>, an empty outline and no error field (the message is only logged), and
  \<open>analyze_pdf_headings\<close> of helper.py returns an empty title, an empty outline and the
  error field \<open>Analysis failed: \<close> followed by the message. Both are total: neither
  raises to the caller.
\<close>

theorem open_failure_results:
  "extract_outline si (Inl msg) exc = \<lparr>r_title = ''Error'', r_outline = [], r_error = None\<rparr> \<and>
   analyze_pdf_headings si (Inl msg) =
     \<lparr>r_title = [], r_outline = [], r_error = Some (''Analysis failed: '' @ msg)\<rparr>"
  by (simp add: extract_outline_def analyze_pdf_headings_def analyze_pdf_def)

text \<open>The claim as stated fails for \<open>extract_outline\<close>: the title is not empty and
  there is no error field.\<close>

theorem open_failure_title_counterexample:
  "r_title (extract_outline remdups (Inl ''cannot open broken.pdf'') None) = ''Error'' \<and>
   r_error (extract_outline remdups (Inl ''cannot open broken.pdf'') None) = None"
  by (simp add: extract_outline_def)

text \<open>
  C5, as the code has it. When the document is not a form document and its table of
  contents has more than 2 entries, the outline is the in-order image of the entries whose
  stripped title has at least 3 characters: level H1 for native level 1, H2 for 2, H3 for
  every other level, the stripped title as text, the page clamped to at least 1. The
  title comes from the title extractor, and neither the candidates of the pages nor the
  analyzer's failure flag enter the result.
\<close>

theorem toc_path_outline:
  assumes "\<not> is_form_document doc" and "length (d_toc doc) > 2"
  shows "extract_outline si (Inr doc) exc =
     \<lparr>r_title = extract_title_carefully doc,
       r_outline =
         map (\<lambda>(level, title, pg).
                \<lparr>e_level = (if level = 1 then ''H1'' else if level = 2 then ''H2'' else ''H3''),
                  e_text = strip title, e_page = max 1 pg\<rparr>)
             (filter (\<lambda>(level, title, pg). 3 \<le> length (strip title)) (d_toc doc)),
       r_error = None\<rparr>"
  by (simp add: extract_outline_toc [OF assms] process_toc_map)

theorem toc_path_outline_witness:
  "extract_outline remdups (Inr (bookmarked_doc toc_short_title)) None =
     \<lparr>r_title = [],
       r_outline = [\<lparr>e_level = ''H1'', e_text = ''Introduction'', e_page = 1\<rparr>,
                    \<lparr>e_level = ''H1'', e_text = ''Summary'', e_page = 3\<rparr>],
       r_error = None\<rparr>"
proof -
  have l: "length (d_toc (bookmarked_doc toc_short_title)) > 2"
    by (simp add: bookmarked_doc_def toc_short_title_def)
  have m: "map (\<lambda>(level, title, pg).
                \<lparr>e_level = (if level = 1 then ''H1'' else if level = 2 then ''H2'' else ''H3''),
                  e_text = strip title, e_page = max 1 pg\<rparr>)
             (filter (\<lambda>(level, title, pg). 3 \<le> length (strip title))
                (d_toc (bookmarked_doc toc_short_title))) =
           [\<lparr>e_level = ''H1'', e_text = ''Introduction'', e_page = 1\<rparr>,
            \<lparr>e_level = ''H1'', e_text = ''Summary'', e_page = 3\<rparr>]"
    by code_simp
  show ?thesis
    using toc_path_outline [OF bookmarked_not_form l, of remdups None]
    by (simp only: m bookmarked_title)
qed

text \<open>The claim as stated fails: an entry with a title shorter than 3 characters is
  dropped, so the outline is not the image of every entry.\<close>

theorem toc_short_title_counterexample:
  "length (d_toc (bookmarked_doc toc_short_title)) > 2 \<and>
   r_outline (extract_outline remdups (Inr (bookmarked_doc toc_short_title)) None) \<noteq>
   map spec_toc_entry (d_toc (bookmarked_doc toc_short_title))"
proof -
  have l: "length (d_toc (bookmarked_doc toc_short_title)) > 2"
    by (simp add: bookmarked_doc_def toc_short_title_def)
  have p: "length (process_toc (d_toc (bookmarked_doc toc_short_title))) = 2"
    by code_simp
  have "length (r_outline (extract_outline remdups (Inr (bookmarked_doc toc_short_title)) None)) = 2"
    by (simp add: extract_outline_toc [OF bookmarked_not_form l] p)
  moreover have "length (map spec_toc_entry (d_toc (bookmarked_doc toc_short_title))) = 3"
    by (simp add: bookmarked_doc_def toc_short_title_def)
  ultimately show ?thesis using l by auto
qed




text \<open>
  C1, as the code has it. On the form path and when the document cannot be opened the
  outline is empty. On the text-analysis path (no form document, at most 2 entries in the
  table of contents, no failure of the analyzer) no outline entry has the text of the
  title that the heading analyzer chose, the largest candidate of page 1; the title that
  \<open>extract_outline\<close> returns comes from the title extractor and is not compared with the
  outline on any path.
\<close>

theorem title_exclusion_by_path:
  assumes "is_form_document doc \<or> length (d_toc doc) \<le> 2"
  shows "(\<forall>e \<in> set (r_outline (extract_outline si (Inr doc) None)).
            e_text e \<noteq> r_title (analyze_pdf_from_doc si doc)) \<and>
         (is_form_document doc \<longrightarrow> r_outline (extract_outline si (Inr doc) exc) = []) \<and>
         r_outline (extract_outline si (Inl msg) exc) = []"
proof (cases "is_form_document doc")
  case True
  then show ?thesis by (simp add: extract_outline_def)
next
  case False
  with assms have "length (d_toc doc) \<le> 2" by simp
  with False show ?thesis
    by (auto simp: extract_outline_text extract_from_text_ok analyze_pdf_from_doc_def
        extract_outline_def dest: classify_excludes_title)
qed

lemma sqrt16: "sqrt 16 = 4"
proof -
  have "sqrt 16 = sqrt (4\<^sup>2)" by simp
  also have "\<dots> = 4" by (simp del: power2_eq_square)
  finally show ?thesis .
qed

lemma cover_headings:
  "merge_adjacent_headings (all_headings remdups cover_doc) =
     [\<lparr>h_text = ''Annual Report'', h_level = [], h_page = 1,
        h_bbox = Some (72, 200, 300, 224), h_font_size = 20,
        h_font_name = ''Arial'', h_confidence = 0\<rparr>,
      \<lparr>h_text = ''1. Introduction'', h_level = [], h_page = 1,
        h_bbox = Some (72, 300, 200, 314), h_font_size = 12,
        h_font_name = ''Arial'', h_confidence = 0\<rparr>]"
  by code_simp

lemma cover_level:
  "calculate_heading_level \<lparr>h_text = ''1. Introduction'', h_level = [], h_page = 1,
        h_bbox = Some (72, 300, 200, 314), h_font_size = 12,
        h_font_name = ''Arial'', h_confidence = 0\<rparr> 16 4 = (''H3'', 0.5 + (0.4 * (- 4 / (4 + 1 / 1000000)) + 0.3 * 2.4 + 0.1 * 0.3) * 0.1)"
  by code_simp

lemma cover_classified:
  "classify_headings (merge_adjacent_headings (all_headings remdups cover_doc)) =
     \<lparr>r_title = ''Annual Report'',
       r_outline = [\<lparr>e_level = ''H3'', e_text = ''1. Introduction'', e_page = 1\<rparr>],
       r_error = None\<rparr>"
  unfolding cover_headings
  by (simp add: classify_headings_def Let_def np_mean_def np_std_def sqrt16 sort_pos_def
      box_top_def classify_one_def cover_level)

theorem title_exclusion_by_path_witness:
  "length (d_toc cover_doc) \<le> 2 \<and>
   r_title (analyze_pdf_from_doc remdups cover_doc) = ''Annual Report'' \<and>
   r_outline (extract_outline remdups (Inr cover_doc) None) =
     [\<lparr>e_level = ''H3'', e_text = ''1. Introduction'', e_page = 1\<rparr>] \<and>
   e_text (hd (r_outline (extract_outline remdups (Inr cover_doc) None))) \<noteq>
     r_title (analyze_pdf_from_doc remdups cover_doc)"
proof -
  have t: "length (d_toc cover_doc) \<le> 2" by (simp add: cover_doc_def)
  have n: "\<not> is_form_document cover_doc" by code_simp
  have o: "r_outline (extract_outline remdups (Inr cover_doc) None) =
     [\<lparr>e_level = ''H3'', e_text = ''1. Introduction'', e_page = 1\<rparr>]"
    by (simp add: extract_outline_text [OF n t] extract_from_text_ok analyze_pdf_from_doc_def
        cover_classified)
  have a: "r_title (analyze_pdf_from_doc remdups cover_doc) = ''Annual Report''"
    by (simp add: analyze_pdf_from_doc_def cover_classified)
  from title_exclusion_by_path [of cover_doc remdups None "[]"] t
  have "\<forall>e \<in> set (r_outline (extract_outline remdups (Inr cover_doc) None)).
      e_text e \<noteq> r_title (analyze_pdf_from_doc remdups cover_doc)"
    by blast
  then have "e_text (hd (r_outline (extract_outline remdups (Inr cover_doc) None))) \<noteq>
     r_title (analyze_pdf_from_doc remdups cover_doc)"
    by (simp add: o)
  with t o a show ?thesis by blast
qed

text \<open>The claim as stated fails on the table-of-contents path: the title of the
  document is also the first bookmark.\<close>

theorem title_in_toc_outline_counterexample:
  "r_title (extract_outline remdups (Inr report_doc) None) = ''Annual Report Overview'' \<and>
   r_outline (extract_outline remdups (Inr report_doc) None) =
     [\<lparr>e_level = ''H1'', e_text = ''Annual Report Overview'', e_page = 1\<rparr>,
      \<lparr>e_level = ''H2'', e_text = ''Scope'', e_page = 1\<rparr>,
      \<lparr>e_level = ''H2'', e_text = ''Budget'', e_page = 1\<rparr>]"
proof -
  have n: "\<not> is_form_document report_doc" by code_simp
  have l: "length (d_toc report_doc) > 2" by (simp add: report_doc_def)
  have t: "extract_title_carefully report_doc = ''Annual Report Overview''" by code_simp
  have p: "process_toc (d_toc report_doc) =
     [\<lparr>e_level = ''H1'', e_text = ''Annual Report Overview'', e_page = 1\<rparr>,
      \<lparr>e_level = ''H2'', e_text = ''Scope'', e_page = 1\<rparr>,
      \<lparr>e_level = ''H2'', e_text = ''Budget'', e_page = 1\<rparr>]" by code_simp
  show ?thesis by (simp add: extract_outline_toc [OF n l] t p)
qed

section \<open>Header and footer bands\<close>

lemma page_lines_drop:
  "page_lines (drop_margin_lines_page plain_of pg) =
     filter (\<lambda>l. \<not> in_margin_band (p_height pg) l) (page_lines pg)"
proof -
  have "concat (map (\<lambda>blk. case blk of None \<Rightarrow> [] | Some ls \<Rightarrow> ls)
                  (map (map_option (filter P)) bs)) =
        filter P (concat (map (\<lambda>blk. case blk of None \<Rightarrow> [] | Some ls \<Rightarrow> ls) bs))"
    for P :: "line \<Rightarrow> bool" and bs :: "block list"
    by (induction bs) (auto split: option.splits)
  then show ?thesis
    by (simp add: page_lines_def drop_margin_lines_page_def)
qed

lemma header_or_footer_rejected:
  "is_header_or_footer txt box ph pw \<Longrightarrow> \<not> is_potential_heading txt fs fn box ph pw"
  by (simp add: is_potential_heading_def Let_def)

lemma band_is_header_or_footer:
  "y0 < ph * 0.1 \<or> y0 > ph * 0.9 \<Longrightarrow> is_header_or_footer txt (Some (x0, y0, x1, y1)) ph pw"
  by (simp add: is_header_or_footer_def Let_def)

lemma line_heading_band:
  assumes "in_margin_band ph l"
  shows "line_heading si ph pw n l = []"
proof -
  obtain t fs fn box where sc: "scan_spans l ([], [], [], None) = (t, fs, fn, box)"
    by (cases "scan_spans l ([], [], [], None)")
  from assms sc obtain x0 y0 x1 y1
    where box: "box = Some (x0, y0, x1, y1)" and y: "y0 < ph * 0.1 \<or> y0 > ph * 0.9"
    by (auto simp: in_margin_band_def split: option.splits)
  have "\<not> is_potential_heading (strip t) fs fn box ph pw"
    unfolding box by (rule header_or_footer_rejected, rule band_is_header_or_footer, rule y)
  then show ?thesis
    by (simp add: line_heading_def sc Let_def)
qed

lemma concat_map_filter_nil:
  "(\<And>x. \<not> P x \<Longrightarrow> f x = []) \<Longrightarrow> concat (map f (filter P xs)) = concat (map f xs)"
  by (induction xs) auto

lemma extract_page_headings_drop:
  "extract_page_headings si (drop_margin_lines_page plain_of pg) n = extract_page_headings si pg n"
proof -
  have h: "p_height (drop_margin_lines_page plain_of pg) = p_height pg"
    and w: "p_width (drop_margin_lines_page plain_of pg) = p_width pg"
    by (simp_all add: drop_margin_lines_page_def)
  show ?thesis
    unfolding extract_page_headings_def page_lines_drop h w
    by (rule concat_map_filter_nil) (simp add: line_heading_band)
qed

lemma all_headings_drop:
  "all_headings si (drop_margin_lines plain_of doc) = all_headings si doc"
proof -
  have "concat (map (\<lambda>(page_num, pg). extract_page_headings si pg (int page_num + 1))
               (enumerate n (map (drop_margin_lines_page plain_of) pgs))) =
        concat (map (\<lambda>(page_num, pg). extract_page_headings si pg (int page_num + 1))
               (enumerate n pgs))" for n pgs
    by (induction pgs arbitrary: n) (simp_all add: extract_page_headings_drop)
  then show ?thesis
    by (simp add: all_headings_def drop_margin_lines_def)
qed


lemma toc_drop: "d_toc (drop_margin_lines plain_of doc) = d_toc doc"
  by (simp add: drop_margin_lines_def)


lemma footer_line_no_heading: "line_heading si 792 612 n (footer_line footer) = []"
proof (cases "strip footer = []")
  case True
  then show ?thesis
    by (simp add: line_heading_def footer_line_def Let_def is_potential_heading_def strip_def)
next
  case False
  then have "in_margin_band 792 (footer_line footer)"
    by (simp add: in_margin_band_def footer_line_def Let_def)
  then show ?thesis by (rule line_heading_band)
qed

lemma footer_headings:
  "merge_adjacent_headings (all_headings remdups (footer_doc footer)) =
   merge_adjacent_headings (all_headings remdups cover_doc)"
proof -
  have "all_headings remdups (footer_doc footer) = all_headings remdups cover_doc"
    by (simp add: all_headings_def footer_doc_def cover_doc_def paper_doc_def
        extract_page_headings_def page_lines_def footer_line_no_heading)
  then show ?thesis by simp
qed



text \<open>
  Form detection does see the band lines: with three form keywords in the footer the
  document is a form document and its outline is empty, and without the footer it is
  not and the outline has an entry.
\<close>

lemma footer_counts_in_form_detection:
  "in_margin_band 792 (footer_line ''Application form designation signature'') \<and>
   r_outline (extract_outline remdups
       (Inr (footer_doc ''Application form designation signature'')) None) = [] \<and>
   r_outline (extract_outline remdups
       (Inr (drop_margin_lines (\<lambda>pg. body_text)
              (footer_doc ''Application form designation signature''))) None) =
     [\<lparr>e_level = ''H3'', e_text = ''1. Introduction'', e_page = 1\<rparr>]"
proof -
  let ?doc = "footer_doc ''Application form designation signature''"
  let ?cut = "drop_margin_lines (\<lambda>pg. body_text) ?doc"
  have b: "in_margin_band 792 (footer_line ''Application form designation signature'')"
    by code_simp
  have f: "is_form_document ?doc" by code_simp
  have n: "\<not> is_form_document ?cut" by code_simp
  have t: "length (d_toc ?cut) \<le> 2" by (simp add: footer_doc_def toc_drop)
  have "r_outline (extract_outline remdups (Inr ?cut) None) =
     [\<lparr>e_level = ''H3'', e_text = ''1. Introduction'', e_page = 1\<rparr>]"
    by (simp add: extract_outline_text [OF n t] extract_from_text_ok all_headings_drop
        analyze_pdf_from_doc_def footer_headings cover_classified)
  with b f show ?thesis by (simp add: extract_outline_form)
qed


section \<open>The adjacency merger\<close>


end
